theory Spec2Isabelle
  imports Complex_Main
begin

section \<open>Python strings and numbers used by the generator\<close>

text \<open>
  Exceptions of the source are values. \<open>ValueError\<close> carries the message of the
  \<^verbatim>\<open>raise\<close>; \<open>ShapeError\<close> is the runtime error of a tensor operation given an
  input it cannot take; \<open>AttributeError\<close> is a read of an attribute that the
  constructor did not set.
\<close>

datatype error =
    ValueError string
  | ZeroDivisionError
  | ShapeError
  | AttributeError
  | InvalidConfiguration
  | InvalidState

definition bind_r :: "error + 'a \<Rightarrow> ('a \<Rightarrow> error + 'b) \<Rightarrow> error + 'b" where
  "bind_r m f = (case m of Inl e \<Rightarrow> Inl e | Inr x \<Rightarrow> f x)"

fun startswith :: "string \<Rightarrow> string \<Rightarrow> bool" where
  "startswith [] s = True"
| "startswith (p # ps) [] = False"
| "startswith (p # ps) (c # cs) = (p = c \<and> startswith ps cs)"

text \<open>\<^verbatim>\<open>sub in s\<close> on Python strings: \<open>sub\<close> occurs in \<open>s\<close> as a contiguous run.\<close>

fun str_in :: "string \<Rightarrow> string \<Rightarrow> bool" where
  "str_in sub [] = (sub = [])"
| "str_in sub (c # cs) = (startswith sub (c # cs) \<or> str_in sub cs)"

text \<open>
  \<^verbatim>\<open>s.replace(old, new)\<close> for a non-empty \<open>old\<close>: the occurrences are replaced from
  the left, without overlap, and the text put in is not searched again. (For an empty
  \<open>old\<close> Python interleaves \<open>new\<close>; the source only replaces \<^verbatim>\<open>"spectral"\<close>, and the
  model returns \<open>s\<close> there.)
\<close>

function str_replace :: "string \<Rightarrow> string \<Rightarrow> string \<Rightarrow> string" where
  "str_replace old new s =
     (if old \<noteq> [] \<and> startswith old s
      then new @ str_replace old new (drop (length old) s)
      else (case s of [] \<Rightarrow> [] | c # cs \<Rightarrow> c # str_replace old new cs))"
  by pat_completeness auto
termination
proof (relation "measure (\<lambda>(old, new, s). length s)")
  show "wf (measure (\<lambda>(old, new, s). length s))"
    by simp
next
  fix old new s :: string
  assume "old \<noteq> [] \<and> startswith old s"
  then have "s \<noteq> []" and "old \<noteq> []"
    by (cases old; cases s; simp)+
  then show "((old, new, drop (length old) s), (old, new, s))
              \<in> measure (\<lambda>(old, new, s). length s)"
    by simp
next
  fix old new s :: string and c cs
  assume "s = c # cs"
  then show "((old, new, cs), (old, new, s)) \<in> measure (\<lambda>(old, new, s). length s)"
    by simp
qed

declare str_replace.simps [simp del]

text \<open>
  Python's \<^verbatim>\<open>round(x)\<close> of a float, to an integer: the nearest integer, a tie going
  to the even one. A float is a rational number; the quotient is taken exactly.
\<close>

definition py_round :: "rat \<Rightarrow> int" where
  "py_round q =
     (let f = \<lfloor>q\<rfloor>; d = q - of_int f
      in if d < 1 / 2 then f
         else if 1 / 2 < d then f + 1
         else if even f then f else f + 1)"

section \<open>Configuration\<close>

record options =
  ngf :: nat
  norm_G :: string
  semantic_nc :: nat
  num_upsampling_layers :: string
  crop_size :: int
  aspect_ratio :: rat

text \<open>The stage count selected by lines 97 to 104 of the source.\<close>

definition num_up_layers :: "string \<Rightarrow> error + nat" where
  "num_up_layers mode =
     (if mode = ''normal'' then Inr 5
      else if mode = ''more'' then Inr 6
      else if mode = ''most'' then Inr 7
      else Inl (ValueError (''opt.num_upsampling_layers ['' @ mode @ ''] not recognized'')))"

definition compute_latent_vector_size :: "options \<Rightarrow> error + (int \<times> int)" where
  "compute_latent_vector_size opt =
     bind_r (num_up_layers (num_upsampling_layers opt)) (\<lambda>n.
       let sw = crop_size opt div (2 ^ n)
       in if aspect_ratio opt = 0 then Inl ZeroDivisionError
          else let sh = py_round (of_int sw / aspect_ratio opt)
               in Inr (sw, sh))"

section \<open>Tensors and the tensor operations the source calls\<close>

text \<open>
  A tensor is its shape and its elements, read by index. The elements are real numbers:
  rounding, infinities and NaN of the floating-point formats are not part of the model.
\<close>

record tensor =
  shape :: "nat list"
  elems :: "nat list \<Rightarrow> real"

text \<open>\<^verbatim>\<open>F.leaky_relu(x, negative_slope)\<close> and \<^verbatim>\<open>torch.tanh(x)\<close>, element by element.\<close>

definition leaky_relu :: "tensor \<Rightarrow> real \<Rightarrow> tensor" where
  "leaky_relu x negative_slope =
     x\<lparr>elems := (\<lambda>i. if 0 \<le> elems x i then elems x i else negative_slope * elems x i)\<rparr>"

definition torch_tanh :: "tensor \<Rightarrow> tensor" where
  "torch_tanh x = x\<lparr>elems := (\<lambda>i. tanh (elems x i))\<rparr>"

text \<open>
  \<^verbatim>\<open>a + b\<close> on tensors of one shape. (On different shapes the library tries to
  broadcast; the model reports \<open>ShapeError\<close> there.)
\<close>

definition tensor_add :: "tensor \<Rightarrow> tensor \<Rightarrow> error + tensor" where
  "tensor_add a b =
     (if shape a = shape b
      then Inr \<lparr>shape = shape a, elems = (\<lambda>i. elems a i + elems b i)\<rparr>
      else Inl ShapeError)"

text \<open>
  \<^verbatim>\<open>F.interpolate(x, size=(oh, ow))\<close> in its default mode (nearest neighbour), on a
  4-D tensor; every spatial size, given and asked for, must be positive.
\<close>

definition interpolate :: "tensor \<Rightarrow> int \<times> int \<Rightarrow> error + tensor" where
  "interpolate x sz =
     (case (shape x, sz) of
        ([b, c, h, w], (oh, ow)) \<Rightarrow>
          if 0 < h \<and> 0 < w \<and> 0 < oh \<and> 0 < ow
          then Inr \<lparr>shape = [b, c, nat oh, nat ow],
                    elems = (\<lambda>idx. case idx of
                               [ib, ic, i, j] \<Rightarrow>
                                 elems x [ib, ic, (i * h) div nat oh, (j * w) div nat ow]
                             | _ \<Rightarrow> 0)\<rparr>
          else Inl ShapeError
      | _ \<Rightarrow> Inl ShapeError)"

text \<open>\<^verbatim>\<open>nn.Upsample(scale_factor=2)\<close>: nearest neighbour, every spatial axis scaled.\<close>

record upsample =
  scale_factor :: nat

definition Upsample :: "nat \<Rightarrow> upsample" where
  "Upsample k = \<lparr>scale_factor = k\<rparr>"

definition Upsample_forward :: "upsample \<Rightarrow> tensor \<Rightarrow> error + tensor" where
  "Upsample_forward u x =
     (case shape x of
        b # c # sp \<Rightarrow>
          if sp \<noteq> [] \<and> length sp \<le> 3 \<and> 0 \<notin> set sp \<and> 0 < scale_factor u
          then Inr \<lparr>shape = b # c # map (\<lambda>d. d * scale_factor u) sp,
                    elems = (\<lambda>idx. elems x (take 2 idx @
                                       map (\<lambda>i. i div scale_factor u) (drop 2 idx)))\<rparr>
          else Inl ShapeError
      | _ \<Rightarrow> Inl ShapeError)"

subsection \<open>Learned layers\<close>

text \<open>
  What a learned layer computes depends on weights that the constructor draws at random
  and that training changes. They are a parameter here: a \<open>kernel\<close> is the function
  from the input tensor to the elements of the output that a layer realises with its
  current weights, and the \<open>n\<close>-th layer created gets the \<open>n\<close>-th kernel of the supply.
  \<open>sn_kernel\<close> is what wrapping a convolution with spectral normalisation does to the
  kernel it realises.
\<close>

type_synonym kernel = "tensor \<Rightarrow> nat list \<Rightarrow> real"

record weights =
  conv_kernel :: "nat \<Rightarrow> kernel"
  sn_kernel :: "kernel \<Rightarrow> kernel"
  spade_kernel :: "nat \<Rightarrow> tensor \<Rightarrow> kernel"

text \<open>
  Construction is a computation over the number of layers created so far, which may
  raise: the count that comes back with an error is the count at the \<^verbatim>\<open>raise\<close>.
\<close>

type_synonym 'a ctor = "nat \<Rightarrow> (error + 'a) \<times> nat"

definition creturn :: "'a \<Rightarrow> 'a ctor" where
  "creturn x = (\<lambda>n. (Inr x, n))"

definition cbind :: "'a ctor \<Rightarrow> ('a \<Rightarrow> 'b ctor) \<Rightarrow> 'b ctor" where
  "cbind m f = (\<lambda>n. case m n of (Inl e, n') \<Rightarrow> (Inl e, n') | (Inr x, n') \<Rightarrow> f x n')"

record conv2d =
  in_channels :: nat
  out_channels :: nat
  kernel_size :: nat
  padding :: nat
  bias :: bool
  spectral :: bool
  kernel :: kernel

definition Conv2d :: "weights \<Rightarrow> nat \<Rightarrow> nat \<Rightarrow> nat \<Rightarrow> nat \<Rightarrow> bool \<Rightarrow> conv2d ctor" where
  "Conv2d W cin cout k p b =
     (\<lambda>n. (Inr \<lparr>in_channels = cin, out_channels = cout, kernel_size = k, padding = p,
                 bias = b, spectral = False, kernel = conv_kernel W n\<rparr>, Suc n))"

text \<open>A 4-D input with the layer's channel count; stride 1.\<close>

definition Conv2d_forward :: "conv2d \<Rightarrow> tensor \<Rightarrow> error + tensor" where
  "Conv2d_forward c x =
     (case shape x of
        [b, ci, h, w] \<Rightarrow>
          if ci = in_channels c \<and> kernel_size c \<le> h + 2 * padding c
               \<and> kernel_size c \<le> w + 2 * padding c
          then Inr \<lparr>shape = [b, out_channels c,
                             h + 2 * padding c - kernel_size c + 1,
                             w + 2 * padding c - kernel_size c + 1],
                    elems = kernel c x\<rparr>
          else Inl ShapeError
      | _ \<Rightarrow> Inl ShapeError)"

text \<open>
  \<^verbatim>\<open>torch.nn.utils.spectral_norm\<close> marks the convolution and changes the weight it
  realises. \<^verbatim>\<open>torch.nn.utils.remove_spectral_norm\<close> keeps the realised weight and
  drops the mark. On a convolution without the mark the specification leaves two
  behaviours open, a no-op or an error; the model takes the choice as a parameter.
\<close>

datatype plain_policy = NoOp | Raise

definition spectral_norm :: "weights \<Rightarrow> conv2d \<Rightarrow> conv2d" where
  "spectral_norm W c = c\<lparr>spectral := True, kernel := sn_kernel W (kernel c)\<rparr>"

definition remove_spectral_norm :: "plain_policy \<Rightarrow> conv2d \<Rightarrow> error + conv2d" where
  "remove_spectral_norm pol c =
     (if spectral c then Inr (c\<lparr>spectral := False\<rparr>)
      else (case pol of NoOp \<Rightarrow> Inr c | Raise \<Rightarrow> Inl InvalidState))"

subsection \<open>The conditional normaliser\<close>

text \<open>
  Modelled from the spec: the class \<^verbatim>\<open>SPADE\<close> of \<^verbatim>\<open>..normalization\<close> is not among the
  sources. Section 4.1: the descriptor selects the base normaliser among instance,
  batch-synchronised and positional normalisation (section 6 names the markers
  \<^verbatim>\<open>instance\<close>, \<^verbatim>\<open>batch\<close>, \<^verbatim>\<open>position\<close>) and construction fails with
  \<open>InvalidConfiguration\<close> if it matches none; the output of the forward operation has
  the shape of the input feature tensor.
\<close>

datatype base_norm = InstanceNorm | SyncBatchNorm | PositionalNorm

definition parse_base_norm :: "string \<Rightarrow> error + base_norm" where
  "parse_base_norm config_text =
     (if str_in ''instance'' config_text then Inr InstanceNorm
      else if str_in ''batch'' config_text then Inr SyncBatchNorm
      else if str_in ''position'' config_text then Inr PositionalNorm
      else Inl InvalidConfiguration)"

record spade =
  config_text :: string
  param_free_norm :: base_norm
  norm_nc :: nat
  label_nc :: nat
  nhidden :: nat
  spade_fn :: "tensor \<Rightarrow> kernel"

text \<open>
  Modelled from the spec: the constructor of \<^verbatim>\<open>SPADE\<close> (section 4.1, construction
  inputs): descriptor, channels of the input, channels of the semantic map, hidden
  width. It creates one layer, or fails on a descriptor that selects no base normaliser.
\<close>

definition SPADE :: "weights \<Rightarrow> string \<Rightarrow> nat \<Rightarrow> nat \<Rightarrow> nat \<Rightarrow> spade ctor" where
  "SPADE W cfg nc lc nh =
     (\<lambda>n. case parse_base_norm cfg of
             Inl e \<Rightarrow> (Inl e, n)
           | Inr k \<Rightarrow> (Inr \<lparr>config_text = cfg, param_free_norm = k, norm_nc = nc,
                              label_nc = lc, nhidden = nh, spade_fn = spade_kernel W n\<rparr>,
                        Suc n))"

text \<open>
  Modelled from the spec: the forward operation of \<^verbatim>\<open>SPADE\<close> (section 4.1, guarantee):
  the output has the shape of the feature tensor \<open>x\<close>, whatever the spatial size of the
  semantic map, which is resized inside. A feature tensor or a semantic map with other
  channel counts than the normaliser was built for is a shape mismatch (section 7).
\<close>

definition SPADE_forward :: "spade \<Rightarrow> tensor \<Rightarrow> tensor \<Rightarrow> error + tensor" where
  "SPADE_forward m x seg =
     (case (shape x, shape seg) of
        ([b, c, h, w], [b', k, h0, w0]) \<Rightarrow>
          if c = norm_nc m \<and> k = label_nc m \<and> b = b'
               \<and> 0 < h \<and> 0 < w \<and> 0 < h0 \<and> 0 < w0
          then Inr \<lparr>shape = shape x, elems = spade_fn m x seg\<rparr>
          else Inl ShapeError
      | _ \<Rightarrow> Inl ShapeError)"

section \<open>The conditional residual block\<close>

record SPADEResnetBlock =
  fin :: nat
  fout :: nat
  blk_opt :: options
  learned_shortcut :: bool
  conv_0 :: conv2d
  conv_1 :: conv2d
  conv_s :: "conv2d option"
  norm_0 :: spade
  norm_1 :: spade
  norm_s :: "spade option"

text \<open>
  \<^verbatim>\<open>SPADEResnetBlock.__init__\<close>. The attributes \<^verbatim>\<open>conv_s\<close> and \<^verbatim>\<open>norm_s\<close> are set
  only under \<^verbatim>\<open>learned_shortcut\<close>: \<open>None\<close> is the attribute that does not exist.
\<close>

definition SPADEResnetBlock_init ::
    "weights \<Rightarrow> nat \<Rightarrow> nat \<Rightarrow> options \<Rightarrow> SPADEResnetBlock ctor" where
  "SPADEResnetBlock_init W fi fo opt =
     (let learned = (fi \<noteq> fo);
          fmiddle = min fi fo
      in
      cbind (Conv2d W fi fmiddle 3 1 True) (\<lambda>c0.
      cbind (Conv2d W fmiddle fo 3 1 True) (\<lambda>c1.
      cbind (if learned
             then cbind (Conv2d W fi fo 1 0 False) (\<lambda>c. creturn (Some c))
             else creturn None) (\<lambda>cs.
      let sp = str_in ''spectral'' (norm_G opt);
          c0' = (if sp then spectral_norm W c0 else c0);
          c1' = (if sp then spectral_norm W c1 else c1);
          cs' = (if sp \<and> learned then map_option (spectral_norm W) cs else cs);
          spade_config_str = str_replace ''spectral'' [] (norm_G opt)
      in
      cbind (SPADE W spade_config_str fi (semantic_nc opt) (ngf opt * 2)) (\<lambda>n0.
      cbind (SPADE W spade_config_str fmiddle (semantic_nc opt) (ngf opt * 2)) (\<lambda>n1.
      cbind (if learned
             then cbind (SPADE W spade_config_str fi (semantic_nc opt) (ngf opt * 2))
                    (\<lambda>m. creturn (Some m))
             else creturn None) (\<lambda>ns.
      creturn \<lparr>fin = fi, fout = fo, blk_opt = opt, learned_shortcut = learned,
               conv_0 = c0', conv_1 = c1', conv_s = cs',
               norm_0 = n0, norm_1 = n1, norm_s = ns\<rparr>)))))))"

definition SPADEResnetBlock_shortcut ::
    "SPADEResnetBlock \<Rightarrow> tensor \<Rightarrow> tensor \<Rightarrow> error + tensor" where
  "SPADEResnetBlock_shortcut b x seg =
     (if learned_shortcut b
      then (case (conv_s b, norm_s b) of
              (Some c, Some m) \<Rightarrow> bind_r (SPADE_forward m x seg) (Conv2d_forward c)
            | _ \<Rightarrow> Inl AttributeError)
      else Inr x)"

definition SPADEResnetBlock_actvn :: "SPADEResnetBlock \<Rightarrow> tensor \<Rightarrow> tensor" where
  "SPADEResnetBlock_actvn b x = leaky_relu x (2 / 10)"

definition SPADEResnetBlock_forward ::
    "SPADEResnetBlock \<Rightarrow> tensor \<Rightarrow> tensor \<Rightarrow> error + tensor" where
  "SPADEResnetBlock_forward b x seg =
     bind_r (SPADEResnetBlock_shortcut b x seg) (\<lambda>x_s.
     bind_r (SPADE_forward (norm_0 b) x seg) (\<lambda>h0.
     bind_r (Conv2d_forward (conv_0 b) (SPADEResnetBlock_actvn b h0)) (\<lambda>dx.
     bind_r (SPADE_forward (norm_1 b) dx seg) (\<lambda>h1.
     bind_r (Conv2d_forward (conv_1 b) (SPADEResnetBlock_actvn b h1)) (\<lambda>dx.
     tensor_add x_s dx)))))"

text \<open>
  \<^verbatim>\<open>SPADEResnetBlock.remove_spectral_norm\<close> rewrites the convolutions in the order of
  the source; an error of the library call ends it.
\<close>

definition SPADEResnetBlock_remove_spectral_norm ::
    "plain_policy \<Rightarrow> SPADEResnetBlock \<Rightarrow> error + SPADEResnetBlock" where
  "SPADEResnetBlock_remove_spectral_norm pol b =
     bind_r (remove_spectral_norm pol (conv_0 b)) (\<lambda>c0.
     bind_r (remove_spectral_norm pol (conv_1 b)) (\<lambda>c1.
     if learned_shortcut b
     then (case conv_s b of
             None \<Rightarrow> Inl AttributeError
           | Some c \<Rightarrow>
               bind_r (remove_spectral_norm pol c) (\<lambda>cs.
               Inr (b\<lparr>conv_0 := c0, conv_1 := c1, conv_s := Some cs\<rparr>)))
     else Inr (b\<lparr>conv_0 := c0, conv_1 := c1\<rparr>)))"

section \<open>The generator\<close>

record SPADEGenerator =
  gen_opt :: options
  sw :: int
  sh :: int
  fc :: conv2d
  head_0 :: SPADEResnetBlock
  G_middle_0 :: SPADEResnetBlock
  G_middle_1 :: SPADEResnetBlock
  up_0 :: SPADEResnetBlock
  up_1 :: SPADEResnetBlock
  up_2 :: SPADEResnetBlock
  up_3 :: SPADEResnetBlock
  up_4 :: "SPADEResnetBlock option"
  conv_img :: conv2d
  up :: upsample

definition clift :: "error + 'a \<Rightarrow> 'a ctor" where
  "clift r = (\<lambda>n. (r, n))"

text \<open>
  \<^verbatim>\<open>SPADEGenerator.__init__\<close>. The base size is computed first, before any layer is
  created; \<^verbatim>\<open>up_4\<close> is set only in the mode \<^verbatim>\<open>most\<close>.
\<close>

definition SPADEGenerator_init :: "weights \<Rightarrow> options \<Rightarrow> SPADEGenerator ctor" where
  "SPADEGenerator_init W opt =
     (let nf = ngf opt in
      cbind (clift (compute_latent_vector_size opt)) (\<lambda>(sw', sh').
      cbind (Conv2d W (semantic_nc opt) (16 * nf) 3 1 True) (\<lambda>fc'.
      cbind (SPADEResnetBlock_init W (16 * nf) (16 * nf) opt) (\<lambda>h0.
      cbind (SPADEResnetBlock_init W (16 * nf) (16 * nf) opt) (\<lambda>m0.
      cbind (SPADEResnetBlock_init W (16 * nf) (16 * nf) opt) (\<lambda>m1.
      cbind (SPADEResnetBlock_init W (16 * nf) (8 * nf) opt) (\<lambda>u0.
      cbind (SPADEResnetBlock_init W (8 * nf) (4 * nf) opt) (\<lambda>u1.
      cbind (SPADEResnetBlock_init W (4 * nf) (2 * nf) opt) (\<lambda>u2.
      cbind (SPADEResnetBlock_init W (2 * nf) (1 * nf) opt) (\<lambda>u3.
      cbind (if num_upsampling_layers opt = ''most''
             then cbind (SPADEResnetBlock_init W (1 * nf) (nf div 2) opt)
                    (\<lambda>u4. creturn (Some u4, nf div 2))
             else creturn (None, nf)) (\<lambda>(u4, final_nc).
      cbind (Conv2d W final_nc 3 3 1 True) (\<lambda>ci.
      creturn \<lparr>gen_opt = opt, sw = sw', sh = sh', fc = fc', head_0 = h0,
               G_middle_0 = m0, G_middle_1 = m1,
               up_0 = u0, up_1 = u1, up_2 = u2, up_3 = u3, up_4 = u4,
               conv_img = ci, up = Upsample 2\<rparr>))))))))))))"

text \<open>
  \<^verbatim>\<open>SPADEGenerator.forward\<close>, line by line; \<open>bind_r\<close> stops at the first operation
  that raises.
\<close>

definition SPADEGenerator_forward :: "SPADEGenerator \<Rightarrow> tensor \<Rightarrow> error + tensor" where
  "SPADEGenerator_forward g input =
     (let opt = gen_opt g; seg = input in
      bind_r (interpolate seg (sh g, sw g)) (\<lambda>x.
      bind_r (Conv2d_forward (fc g) x) (\<lambda>x.
      bind_r (SPADEResnetBlock_forward (head_0 g) x seg) (\<lambda>x.
      bind_r (Upsample_forward (up g) x) (\<lambda>x.
      bind_r (SPADEResnetBlock_forward (G_middle_0 g) x seg) (\<lambda>x.
      bind_r (if num_upsampling_layers opt = ''more'' \<or> num_upsampling_layers opt = ''most''
              then Upsample_forward (up g) x else Inr x) (\<lambda>x.
      bind_r (SPADEResnetBlock_forward (G_middle_1 g) x seg) (\<lambda>x.
      bind_r (Upsample_forward (up g) x) (\<lambda>x.
      bind_r (SPADEResnetBlock_forward (up_0 g) x seg) (\<lambda>x.
      bind_r (Upsample_forward (up g) x) (\<lambda>x.
      bind_r (SPADEResnetBlock_forward (up_1 g) x seg) (\<lambda>x.
      bind_r (Upsample_forward (up g) x) (\<lambda>x.
      bind_r (SPADEResnetBlock_forward (up_2 g) x seg) (\<lambda>x.
      bind_r (Upsample_forward (up g) x) (\<lambda>x.
      bind_r (SPADEResnetBlock_forward (up_3 g) x seg) (\<lambda>x.
      bind_r (if num_upsampling_layers (gen_opt g) = ''most''
              then bind_r (Upsample_forward (up g) x) (\<lambda>x.
                     case up_4 g of
                       None \<Rightarrow> Inl AttributeError
                     | Some b \<Rightarrow> SPADEResnetBlock_forward b x seg)
              else Inr x) (\<lambda>x.
      bind_r (Conv2d_forward (conv_img g) (leaky_relu x (2 / 10))) (\<lambda>x.
      Inr (torch_tanh x)))))))))))))))))))"

text \<open>
  \<^verbatim>\<open>SPADEGenerator.remove_spectral_norm\<close> goes through the residual blocks in the order
  of construction; the fifth upsampling block is reached only in the mode \<^verbatim>\<open>most\<close>.
\<close>

definition SPADEGenerator_remove_spectral_norm ::
    "plain_policy \<Rightarrow> SPADEGenerator \<Rightarrow> error + SPADEGenerator" where
  "SPADEGenerator_remove_spectral_norm pol g =
     bind_r (SPADEResnetBlock_remove_spectral_norm pol (head_0 g)) (\<lambda>h0.
     bind_r (SPADEResnetBlock_remove_spectral_norm pol (G_middle_0 g)) (\<lambda>m0.
     bind_r (SPADEResnetBlock_remove_spectral_norm pol (G_middle_1 g)) (\<lambda>m1.
     bind_r (SPADEResnetBlock_remove_spectral_norm pol (up_0 g)) (\<lambda>u0.
     bind_r (SPADEResnetBlock_remove_spectral_norm pol (up_1 g)) (\<lambda>u1.
     bind_r (SPADEResnetBlock_remove_spectral_norm pol (up_2 g)) (\<lambda>u2.
     bind_r (SPADEResnetBlock_remove_spectral_norm pol (up_3 g)) (\<lambda>u3.
     let g' = g\<lparr>head_0 := h0, G_middle_0 := m0, G_middle_1 := m1,
                up_0 := u0, up_1 := u1, up_2 := u2, up_3 := u3\<rparr>
     in if num_upsampling_layers (gen_opt g) = ''most''
        then (case up_4 g of
                None \<Rightarrow> Inl AttributeError
              | Some b \<Rightarrow>
                  bind_r (SPADEResnetBlock_remove_spectral_norm pol b) (\<lambda>u4.
                  Inr (g'\<lparr>up_4 := Some u4\<rparr>)))
        else Inr g')))))))"

section \<open>Well-formed layers\<close>

text \<open>
  The channel counts, kernel size and padding of a convolution; the channel counts of a
  normaliser; and what the constructor establishes for a residual block from \<open>fi\<close> to
  \<open>fo\<close> channels under a semantic map of \<open>k\<close> channels.
\<close>

definition conv_ok :: "nat \<Rightarrow> nat \<Rightarrow> nat \<Rightarrow> nat \<Rightarrow> conv2d \<Rightarrow> bool" where
  "conv_ok cin cout k p c \<longleftrightarrow>
     in_channels c = cin \<and> out_channels c = cout \<and> kernel_size c = k \<and> padding c = p"

definition spade_ok :: "nat \<Rightarrow> nat \<Rightarrow> spade \<Rightarrow> bool" where
  "spade_ok nc lc m \<longleftrightarrow> norm_nc m = nc \<and> label_nc m = lc"

definition block_ok :: "nat \<Rightarrow> nat \<Rightarrow> nat \<Rightarrow> SPADEResnetBlock \<Rightarrow> bool" where
  "block_ok fi fo k b \<longleftrightarrow>
     learned_shortcut b = (fi \<noteq> fo)
     \<and> conv_ok fi (min fi fo) 3 1 (conv_0 b)
     \<and> conv_ok (min fi fo) fo 3 1 (conv_1 b)
     \<and> spade_ok fi k (norm_0 b)
     \<and> spade_ok (min fi fo) k (norm_1 b)
     \<and> (fi \<noteq> fo \<longrightarrow> (\<exists>c m. conv_s b = Some c \<and> norm_s b = Some m
                          \<and> conv_ok fi fo 1 0 c \<and> spade_ok fi k m))"

text \<open>
  A block whose owned convolutions all carry the spectral reparameterisation, and a block
  none of whose owned convolutions carries it.
\<close>

definition block_wrapped :: "SPADEResnetBlock \<Rightarrow> bool" where
  "block_wrapped b \<longleftrightarrow>
     spectral (conv_0 b) \<and> spectral (conv_1 b)
     \<and> (learned_shortcut b \<longrightarrow> (\<exists>c. conv_s b = Some c \<and> spectral c))
     \<and> (\<not> learned_shortcut b \<longrightarrow> conv_s b = None)"

definition block_plain :: "SPADEResnetBlock \<Rightarrow> bool" where
  "block_plain b \<longleftrightarrow>
     \<not> spectral (conv_0 b) \<and> \<not> spectral (conv_1 b)
     \<and> (\<forall>c. conv_s b = Some c \<longrightarrow> \<not> spectral c)"

section \<open>Example inputs\<close>

text \<open>
  A weight supply and the configuration of the end-to-end example of the specification
  (section 8, item 5), used to run the definitions on concrete inputs.
\<close>

definition example_weights :: weights where
  "example_weights =
     \<lparr>conv_kernel = (\<lambda>n x i. 0), sn_kernel = (\<lambda>k. k), spade_kernel = (\<lambda>n x s i. 0)\<rparr>"

definition example_options :: options where
  "example_options =
     \<lparr>ngf = 64, norm_G = ''spectralspadeinstance3x3'', semantic_nc = 35,
      num_upsampling_layers = ''normal'', crop_size = 256, aspect_ratio = 1\<rparr>"

section \<open>Properties\<close>

subsection \<open>Results of the constructors\<close>

lemma cbind_Inr:
  "cbind m f n = (Inr y, n') \<longleftrightarrow> (\<exists>x k. m n = (Inr x, k) \<and> f x k = (Inr y, n'))"
  by (auto simp: cbind_def split: prod.splits sum.splits)

lemma creturn_Inr: "creturn x n = (Inr y, n') \<longleftrightarrow> (y = x \<and> n' = n)"
  by (auto simp: creturn_def)

lemma clift_Inr: "clift r n = (Inr y, n') \<longleftrightarrow> (r = Inr y \<and> n' = n)"
  by (auto simp: clift_def)

lemma bind_r_Inr: "bind_r m f = Inr y \<longleftrightarrow> (\<exists>x. m = Inr x \<and> f x = Inr y)"
  by (auto simp: bind_r_def split: sum.splits)

lemma bind_r_simps: "bind_r (Inr x) f = f x" "bind_r (Inl e) f = Inl e"
  by (simp_all add: bind_r_def)

lemma Conv2d_Inr:
  "Conv2d W cin cout k p b n = (Inr c, n') \<Longrightarrow>
     in_channels c = cin \<and> out_channels c = cout \<and> kernel_size c = k \<and> padding c = p
     \<and> bias c = b \<and> \<not> spectral c \<and> n' = Suc n"
  by (auto simp: Conv2d_def)

lemma SPADE_Inr:
  "SPADE W cfg nc lc nh n = (Inr m, n') \<Longrightarrow>
     config_text m = cfg \<and> norm_nc m = nc \<and> label_nc m = lc \<and> nhidden m = nh"
  by (auto simp: SPADE_def split: sum.splits)

lemma spectral_norm_fields:
  "in_channels (spectral_norm W c) = in_channels c"
  "out_channels (spectral_norm W c) = out_channels c"
  "kernel_size (spectral_norm W c) = kernel_size c"
  "padding (spectral_norm W c) = padding c"
  "bias (spectral_norm W c) = bias c"
  "spectral (spectral_norm W c)"
  by (simp_all add: spectral_norm_def)

lemma SPADEResnetBlock_init_Inr:
  assumes "SPADEResnetBlock_init W fi fo opt n = (Inr b, n')"
  obtains c0 k0 c1 k1 cs k2 n0 k3 n1 k4 ns k5 where
    "Conv2d W fi (min fi fo) 3 1 True n = (Inr c0, k0)" and
    "Conv2d W (min fi fo) fo 3 1 True k0 = (Inr c1, k1)" and
    "(if fi \<noteq> fo then cbind (Conv2d W fi fo 1 0 False) (\<lambda>c. creturn (Some c))
      else creturn None) k1 = (Inr cs, k2)" and
    "SPADE W (str_replace ''spectral'' [] (norm_G opt)) fi (semantic_nc opt) (ngf opt * 2) k2
       = (Inr n0, k3)" and
    "SPADE W (str_replace ''spectral'' [] (norm_G opt)) (min fi fo) (semantic_nc opt)
       (ngf opt * 2) k3 = (Inr n1, k4)" and
    "(if fi \<noteq> fo
      then cbind (SPADE W (str_replace ''spectral'' [] (norm_G opt)) fi (semantic_nc opt)
                   (ngf opt * 2)) (\<lambda>m. creturn (Some m))
      else creturn None) k4 = (Inr ns, k5)" and
    "b = \<lparr>fin = fi, fout = fo, blk_opt = opt, learned_shortcut = (fi \<noteq> fo),
          conv_0 = (if str_in ''spectral'' (norm_G opt) then spectral_norm W c0 else c0),
          conv_1 = (if str_in ''spectral'' (norm_G opt) then spectral_norm W c1 else c1),
          conv_s = (if str_in ''spectral'' (norm_G opt) \<and> fi \<noteq> fo
                    then map_option (spectral_norm W) cs else cs),
          norm_0 = n0, norm_1 = n1, norm_s = ns\<rparr>" and
    "n' = k5"
  using assms
  unfolding SPADEResnetBlock_init_def Let_def cbind_Inr creturn_Inr by blast

lemma block_init_ok:
  assumes "SPADEResnetBlock_init W fi fo opt n = (Inr b, n')"
  shows "block_ok fi fo (semantic_nc opt) b"
proof -
  let ?cfg = "str_replace ''spectral'' [] (norm_G opt)"
  let ?sp = "str_in ''spectral'' (norm_G opt)"
  from assms obtain c0 k0 c1 k1 cs k2 n0 k3 n1 k4 ns k5 where
    c0: "Conv2d W fi (min fi fo) 3 1 True n = (Inr c0, k0)" and
    c1: "Conv2d W (min fi fo) fo 3 1 True k0 = (Inr c1, k1)" and
    cs: "(if fi \<noteq> fo then cbind (Conv2d W fi fo 1 0 False) (\<lambda>c. creturn (Some c))
          else creturn None) k1 = (Inr cs, k2)" and
    n0: "SPADE W ?cfg fi (semantic_nc opt) (ngf opt * 2) k2 = (Inr n0, k3)" and
    n1: "SPADE W ?cfg (min fi fo) (semantic_nc opt) (ngf opt * 2) k3 = (Inr n1, k4)" and
    ns: "(if fi \<noteq> fo then cbind (SPADE W ?cfg fi (semantic_nc opt) (ngf opt * 2))
                            (\<lambda>m. creturn (Some m))
          else creturn None) k4 = (Inr ns, k5)" and
    b: "b = \<lparr>fin = fi, fout = fo, blk_opt = opt, learned_shortcut = (fi \<noteq> fo),
             conv_0 = (if ?sp then spectral_norm W c0 else c0),
             conv_1 = (if ?sp then spectral_norm W c1 else c1),
             conv_s = (if ?sp \<and> fi \<noteq> fo then map_option (spectral_norm W) cs else cs),
             norm_0 = n0, norm_1 = n1, norm_s = ns\<rparr>" and
    k5: "n' = k5"
    by (rule SPADEResnetBlock_init_Inr)
  have c0': "conv_ok fi (min fi fo) 3 1 c0" and c1': "conv_ok (min fi fo) fo 3 1 c1"
    using Conv2d_Inr [OF c0] Conv2d_Inr [OF c1] by (simp_all add: conv_ok_def)
  have n0': "spade_ok fi (semantic_nc opt) n0"
    and n1': "spade_ok (min fi fo) (semantic_nc opt) n1"
    using SPADE_Inr [OF n0] SPADE_Inr [OF n1] by (simp_all add: spade_ok_def)
  have sn: "conv_ok a b' k p (spectral_norm W c) = conv_ok a b' k p c" for a b' k p c
    by (simp add: conv_ok_def spectral_norm_def)
  have s: "fi \<noteq> fo \<longrightarrow> (\<exists>c m. cs = Some c \<and> ns = Some m
              \<and> conv_ok fi fo 1 0 c \<and> spade_ok fi (semantic_nc opt) m)"
  proof
    assume ne: "fi \<noteq> fo"
    from cs ne obtain c where "Conv2d W fi fo 1 0 False k1 = (Inr c, k2)" "cs = Some c"
      by (auto simp: cbind_Inr creturn_Inr)
    moreover from ns ne obtain m where
      "SPADE W ?cfg fi (semantic_nc opt) (ngf opt * 2) k4 = (Inr m, k5)" "ns = Some m"
      by (auto simp: cbind_Inr creturn_Inr)
    ultimately show "\<exists>c m. cs = Some c \<and> ns = Some m
              \<and> conv_ok fi fo 1 0 c \<and> spade_ok fi (semantic_nc opt) m"
      by (auto simp: conv_ok_def spade_ok_def dest: Conv2d_Inr SPADE_Inr)
  qed
  show ?thesis
    unfolding block_ok_def b using c0' c1' n0' n1' s by (auto simp: sn)
qed











subsection \<open>What the block constructor builds\<close>

lemma SPADEResnetBlock_init_succeeds:
  assumes "parse_base_norm (str_replace ''spectral'' [] (norm_G opt)) = Inr k"
  shows "\<exists>b. SPADEResnetBlock_init W fi fo opt n = (Inr b, n + (if fi = fo then 4 else 6))"
  using assms
  by (simp add: SPADEResnetBlock_init_def Let_def cbind_def Conv2d_def SPADE_def creturn_def)

lemma example_norm_G_parses:
  "parse_base_norm (str_replace ''spectral'' [] (norm_G example_options)) = Inr InstanceNorm"
  by (simp add: example_options_def str_replace.simps parse_base_norm_def)

lemma block_init_fields:
  assumes "SPADEResnetBlock_init W fi fo opt n = (Inr b, n')"
  shows "fin b = fi" "fout b = fo" "learned_shortcut b = (fi \<noteq> fo)"
    "spectral (conv_0 b) = str_in ''spectral'' (norm_G opt)"
    "spectral (conv_1 b) = str_in ''spectral'' (norm_G opt)"
    "config_text (norm_0 b) = str_replace ''spectral'' [] (norm_G opt)"
    "config_text (norm_1 b) = str_replace ''spectral'' [] (norm_G opt)"
    "fi = fo \<Longrightarrow> conv_s b = None \<and> norm_s b = None \<and> n' = n + 4"
    "fi \<noteq> fo \<Longrightarrow> \<exists>c m. conv_s b = Some c \<and> norm_s b = Some m \<and> \<not> bias c
        \<and> spectral c = str_in ''spectral'' (norm_G opt)
        \<and> config_text m = str_replace ''spectral'' [] (norm_G opt) \<and> n' = n + 6"
proof -
  let ?cfg = "str_replace ''spectral'' [] (norm_G opt)"
  let ?sp = "str_in ''spectral'' (norm_G opt)"
  from assms obtain c0 k0 c1 k1 cs k2 n0 k3 n1 k4 ns k5 where
    c0: "Conv2d W fi (min fi fo) 3 1 True n = (Inr c0, k0)" and
    c1: "Conv2d W (min fi fo) fo 3 1 True k0 = (Inr c1, k1)" and
    cs: "(if fi \<noteq> fo then cbind (Conv2d W fi fo 1 0 False) (\<lambda>c. creturn (Some c))
          else creturn None) k1 = (Inr cs, k2)" and
    n0: "SPADE W ?cfg fi (semantic_nc opt) (ngf opt * 2) k2 = (Inr n0, k3)" and
    n1: "SPADE W ?cfg (min fi fo) (semantic_nc opt) (ngf opt * 2) k3 = (Inr n1, k4)" and
    ns: "(if fi \<noteq> fo then cbind (SPADE W ?cfg fi (semantic_nc opt) (ngf opt * 2))
                            (\<lambda>m. creturn (Some m))
          else creturn None) k4 = (Inr ns, k5)" and
    b: "b = \<lparr>fin = fi, fout = fo, blk_opt = opt, learned_shortcut = (fi \<noteq> fo),
             conv_0 = (if ?sp then spectral_norm W c0 else c0),
             conv_1 = (if ?sp then spectral_norm W c1 else c1),
             conv_s = (if ?sp \<and> fi \<noteq> fo then map_option (spectral_norm W) cs else cs),
             norm_0 = n0, norm_1 = n1, norm_s = ns\<rparr>" and
    k5: "n' = k5"
    by (rule SPADEResnetBlock_init_Inr)
  have ks: "k0 = Suc n" "k1 = Suc k0" "k3 = Suc k2" "k4 = Suc k3"
    using Conv2d_Inr [OF c0] Conv2d_Inr [OF c1] n0 n1
    by (auto simp: SPADE_def split: sum.splits)
  show "fin b = fi" "fout b = fo" "learned_shortcut b = (fi \<noteq> fo)"
    by (simp_all add: b)
  show "spectral (conv_0 b) = ?sp" "spectral (conv_1 b) = ?sp"
    using Conv2d_Inr [OF c0] Conv2d_Inr [OF c1] by (simp_all add: b spectral_norm_def)
  show "config_text (norm_0 b) = ?cfg" "config_text (norm_1 b) = ?cfg"
    using SPADE_Inr [OF n0] SPADE_Inr [OF n1] by (simp_all add: b)
  show "conv_s b = None \<and> norm_s b = None \<and> n' = n + 4" if "fi = fo"
    using that cs ns ks k5 by (simp add: b creturn_Inr)
  show "\<exists>c m. conv_s b = Some c \<and> norm_s b = Some m \<and> \<not> bias c
        \<and> spectral c = ?sp \<and> config_text m = ?cfg \<and> n' = n + 6" if ne: "fi \<noteq> fo"
  proof -
    from cs ne obtain c where c: "Conv2d W fi fo 1 0 False k1 = (Inr c, k2)" "cs = Some c"
      by (auto simp: cbind_Inr creturn_Inr)
    from ns ne obtain m where
      m: "SPADE W ?cfg fi (semantic_nc opt) (ngf opt * 2) k4 = (Inr m, k5)" "ns = Some m"
      by (auto simp: cbind_Inr creturn_Inr)
    have "k2 = Suc k1" using Conv2d_Inr [OF c(1)] by simp
    moreover have "k5 = Suc k4" using m(1) by (auto simp: SPADE_def split: sum.splits)
    ultimately have "n' = n + 6" using ks k5 by simp
    then show ?thesis
      using Conv2d_Inr [OF c(1)] SPADE_Inr [OF m(1)] ne
      by (simp add: b c(2) m(2) spectral_norm_def)
  qed
qed

subsection \<open>Stage count and base spatial size\<close>

text \<open>
  Claim C2. At construction the field \<^verbatim>\<open>num_upsampling_layers\<close> selects the number of
  upsampling stages: \<^verbatim>\<open>normal\<close> 5, \<^verbatim>\<open>more\<close> 6, \<^verbatim>\<open>most\<close> 7. For any other value
  the construction of the generator fails with the \<^verbatim>\<open>ValueError\<close> of line 104 (the
  specification calls it \<open>InvalidConfiguration\<close>), and the count of layers created
  is the one the construction started with: the error is raised before any layer is
  created.
\<close>

theorem num_upsampling_layers_stages:
  "num_up_layers ''normal'' = Inr 5 \<and> num_up_layers ''more'' = Inr 6
   \<and> num_up_layers ''most'' = Inr 7
   \<and> (\<forall>W opt n. num_upsampling_layers opt \<noteq> ''normal''
          \<and> num_upsampling_layers opt \<noteq> ''more'' \<and> num_upsampling_layers opt \<noteq> ''most''
        \<longrightarrow> num_up_layers (num_upsampling_layers opt)
              = Inl (ValueError (''opt.num_upsampling_layers ['' @ num_upsampling_layers opt
                                 @ ''] not recognized''))
          \<and> SPADEGenerator_init W opt n
              = (Inl (ValueError (''opt.num_upsampling_layers ['' @ num_upsampling_layers opt
                                  @ ''] not recognized'')), n))"
  by (simp add: num_up_layers_def SPADEGenerator_init_def cbind_def clift_def
      compute_latent_vector_size_def bind_r_simps)

theorem num_upsampling_layers_stages_witness:
  "SPADEGenerator_init example_weights
     (example_options\<lparr>num_upsampling_layers := ''huge''\<rparr>) 0
   = (Inl (ValueError ''opt.num_upsampling_layers [huge] not recognized''), 0)"
  using num_upsampling_layers_stages
  by (simp add: example_options_def)



subsection \<open>The forward operation of a residual block\<close>


subsection \<open>Shortcut path and spectral wrapping of a residual block\<close>

text \<open>
  Claim C4. A residual block constructed from \<open>fi\<close> to \<open>fo\<close> channels has
  \<open>learned_shortcut = (fi \<noteq> fo)\<close> and middle width \<open>min fi fo\<close> (the output width of
  \<open>conv_0\<close>, the input width of \<open>conv_1\<close> and the width \<open>norm_1\<close> normalises). When
  \<open>fi = fo\<close> no shortcut convolution and no shortcut normaliser exist (four layers are
  created) and the shortcut path returns its input. When \<open>fi \<noteq> fo\<close> a 1x1
  convolution without bias from \<open>fi\<close> to \<open>fo\<close> channels exists (six layers are
  created) and the shortcut path applies it to the conditioned normalisation of the
  input.
\<close>

theorem SPADEResnetBlock_shortcut_structure:
  assumes "SPADEResnetBlock_init W fi fo opt n = (Inr b, n')"
  shows "fin b = fi \<and> fout b = fo \<and> learned_shortcut b = (fi \<noteq> fo)
    \<and> out_channels (conv_0 b) = min fi fo \<and> in_channels (conv_1 b) = min fi fo
    \<and> norm_nc (norm_1 b) = min fi fo
    \<and> (fi = fo \<longrightarrow> conv_s b = None \<and> norm_s b = None \<and> n' = n + 4
          \<and> (\<forall>x seg. SPADEResnetBlock_shortcut b x seg = Inr x))
    \<and> (fi \<noteq> fo \<longrightarrow> (\<exists>c m. conv_s b = Some c \<and> norm_s b = Some m \<and> n' = n + 6
          \<and> in_channels c = fi \<and> out_channels c = fo \<and> kernel_size c = 1 \<and> \<not> bias c
          \<and> norm_nc m = fi
          \<and> (\<forall>x seg. SPADEResnetBlock_shortcut b x seg
                        = bind_r (SPADE_forward m x seg) (Conv2d_forward c))))"
proof -
  note f = block_init_fields [OF assms]
  have ok: "block_ok fi fo (semantic_nc opt) b"
    using assms by (rule block_init_ok)
  have 1: "fin b = fi \<and> fout b = fo \<and> learned_shortcut b = (fi \<noteq> fo)
    \<and> out_channels (conv_0 b) = min fi fo \<and> in_channels (conv_1 b) = min fi fo
    \<and> norm_nc (norm_1 b) = min fi fo"
    using f(1,2,3) ok by (simp add: block_ok_def conv_ok_def spade_ok_def)
  have 2: "conv_s b = None \<and> norm_s b = None \<and> n' = n + 4
          \<and> (\<forall>x seg. SPADEResnetBlock_shortcut b x seg = Inr x)" if "fi = fo"
    using f(8) [OF that] f(3) that by (simp add: SPADEResnetBlock_shortcut_def)
  have 3: "\<exists>c m. conv_s b = Some c \<and> norm_s b = Some m \<and> n' = n + 6
          \<and> in_channels c = fi \<and> out_channels c = fo \<and> kernel_size c = 1 \<and> \<not> bias c
          \<and> norm_nc m = fi
          \<and> (\<forall>x seg. SPADEResnetBlock_shortcut b x seg
                        = bind_r (SPADE_forward m x seg) (Conv2d_forward c))" if ne: "fi \<noteq> fo"
  proof -
    from f(9) [OF ne] obtain c m where cm: "conv_s b = Some c" "norm_s b = Some m"
      "\<not> bias c" "n' = n + 6" by blast
    from ok ne cm(1,2) have "conv_ok fi fo 1 0 c" "spade_ok fi (semantic_nc opt) m"
      by (auto simp: block_ok_def)
    then show ?thesis
      using cm f(3) ne by (simp add: SPADEResnetBlock_shortcut_def conv_ok_def spade_ok_def)
  qed
  from 1 2 3 show ?thesis by blast
qed

theorem SPADEResnetBlock_shortcut_structure_witness:
  "(\<exists>b n'. SPADEResnetBlock_init example_weights 4 4 example_options 0 = (Inr b, n')
       \<and> conv_s b = None \<and> n' = 4
       \<and> (\<forall>x seg. SPADEResnetBlock_shortcut b x seg = Inr x))
   \<and> (\<exists>b n' c. SPADEResnetBlock_init example_weights 4 2 example_options 0 = (Inr b, n')
       \<and> conv_s b = Some c \<and> n' = 6 \<and> in_channels c = 4 \<and> out_channels c = 2
       \<and> \<not> bias c \<and> out_channels (conv_0 b) = 2)"
proof -
  obtain b1 where b1: "SPADEResnetBlock_init example_weights 4 4 example_options 0 = (Inr b1, 4)"
    using SPADEResnetBlock_init_succeeds [OF example_norm_G_parses, of example_weights 4 4 0]
    by auto
  obtain b2 where b2: "SPADEResnetBlock_init example_weights 4 2 example_options 0 = (Inr b2, 6)"
    using SPADEResnetBlock_init_succeeds [OF example_norm_G_parses, of example_weights 4 2 0]
    by auto
  show ?thesis
    using b1 b2 SPADEResnetBlock_shortcut_structure [OF b1]
      SPADEResnetBlock_shortcut_structure [OF b2]
    by auto
qed

text \<open>
  Claim C6. The convolutions a constructed block owns (\<open>conv_0\<close>, \<open>conv_1\<close>, and
  \<open>conv_s\<close> when it exists) carry the spectral reparameterisation if and only if the
  mode string \<open>norm_G\<close> contains \<^verbatim>\<open>spectral\<close>; every normaliser the block owns is
  constructed with \<open>norm_G.replace("spectral", "")\<close>. A normaliser has no spectral
  mark at all: \<open>spectral_norm\<close> is applied to convolutions only.
\<close>

theorem SPADEResnetBlock_spectral_wrapping:
  assumes "SPADEResnetBlock_init W fi fo opt n = (Inr b, n')"
  shows "spectral (conv_0 b) = str_in ''spectral'' (norm_G opt)
    \<and> spectral (conv_1 b) = str_in ''spectral'' (norm_G opt)
    \<and> (\<forall>c. conv_s b = Some c \<longrightarrow> spectral c = str_in ''spectral'' (norm_G opt))
    \<and> config_text (norm_0 b) = str_replace ''spectral'' [] (norm_G opt)
    \<and> config_text (norm_1 b) = str_replace ''spectral'' [] (norm_G opt)
    \<and> (\<forall>m. norm_s b = Some m \<longrightarrow> config_text m = str_replace ''spectral'' [] (norm_G opt))"
proof (cases "fi = fo")
  case True
  show ?thesis
    using block_init_fields(4-7) [OF assms] block_init_fields(8) [OF assms True] by simp
next
  case False
  show ?thesis
    using block_init_fields(4-7) [OF assms] block_init_fields(9) [OF assms False] by auto
qed

theorem SPADEResnetBlock_spectral_wrapping_witness:
  "(\<exists>b n' c m. SPADEResnetBlock_init example_weights 4 2 example_options 0 = (Inr b, n')
      \<and> spectral (conv_0 b) \<and> spectral (conv_1 b) \<and> conv_s b = Some c \<and> spectral c
      \<and> config_text (norm_0 b) = ''spadeinstance3x3''
      \<and> config_text (norm_1 b) = ''spadeinstance3x3''
      \<and> norm_s b = Some m \<and> config_text m = ''spadeinstance3x3'')
   \<and> (\<exists>b n' c. SPADEResnetBlock_init example_weights 4 2
                    (example_options\<lparr>norm_G := ''spadeinstance3x3''\<rparr>) 0 = (Inr b, n')
      \<and> \<not> spectral (conv_0 b) \<and> \<not> spectral (conv_1 b) \<and> conv_s b = Some c \<and> \<not> spectral c
      \<and> config_text (norm_0 b) = ''spadeinstance3x3'')"
proof -
  let ?o = "example_options\<lparr>norm_G := ''spadeinstance3x3''\<rparr>"
  have p: "parse_base_norm (str_replace ''spectral'' [] (norm_G ?o)) = Inr InstanceNorm"
    by (simp add: example_options_def str_replace.simps parse_base_norm_def)
  have s1: "str_in ''spectral'' (norm_G example_options)"
    and s2: "\<not> str_in ''spectral'' (norm_G ?o)"
    and r1: "str_replace ''spectral'' [] (norm_G example_options) = ''spadeinstance3x3''"
    and r2: "str_replace ''spectral'' [] (norm_G ?o) = ''spadeinstance3x3''"
    by (simp_all add: example_options_def str_replace.simps)
  obtain b1 where b1: "SPADEResnetBlock_init example_weights 4 2 example_options 0 = (Inr b1, 6)"
    using SPADEResnetBlock_init_succeeds [OF example_norm_G_parses, of example_weights 4 2 0]
    by auto
  obtain b2 where b2: "SPADEResnetBlock_init example_weights 4 2 ?o 0 = (Inr b2, 6)"
    using SPADEResnetBlock_init_succeeds [OF p, of example_weights 4 2 0] by auto
  have ne: "(4::nat) \<noteq> 2" by simp
  from block_init_fields(9) [OF b1 ne] obtain c1 m1 where
    cm1: "conv_s b1 = Some c1" "norm_s b1 = Some m1" by blast
  from block_init_fields(9) [OF b2 ne] obtain c2 m2 where
    cm2: "conv_s b2 = Some c2" "norm_s b2 = Some m2" by blast
  show ?thesis
    using b1 b2 cm1 cm2 s1 s2 r1 r2 SPADEResnetBlock_spectral_wrapping [OF b1]
      SPADEResnetBlock_spectral_wrapping [OF b2]
    by simp
qed

subsection \<open>Removing the spectral reparameterisation from a block\<close>

lemma remove_spectral_norm_plain:
  assumes "\<not> spectral c"
  shows "remove_spectral_norm NoOp c = Inr c" "remove_spectral_norm Raise c = Inl InvalidState"
  using assms by (simp_all add: remove_spectral_norm_def)

lemma remove_spectral_norm_wrapped:
  assumes "spectral c"
  shows "remove_spectral_norm pol c = Inr (c\<lparr>spectral := False\<rparr>)"
  using assms by (simp add: remove_spectral_norm_def)

lemma block_remove_plain:
  assumes l: "learned_shortcut b \<longrightarrow> (\<exists>c. conv_s b = Some c \<and> \<not> spectral c)"
    and c0: "\<not> spectral (conv_0 b)" and c1: "\<not> spectral (conv_1 b)"
  shows "SPADEResnetBlock_remove_spectral_norm NoOp b = Inr b"
    and "SPADEResnetBlock_remove_spectral_norm Raise b = Inl InvalidState"
proof -
  show "SPADEResnetBlock_remove_spectral_norm Raise b = Inl InvalidState"
    using c0 by (simp add: SPADEResnetBlock_remove_spectral_norm_def remove_spectral_norm_plain
        bind_r_simps)
  show "SPADEResnetBlock_remove_spectral_norm NoOp b = Inr b"
  proof (cases "learned_shortcut b")
    case True
    with l obtain c where c: "conv_s b = Some c" "\<not> spectral c" by blast
    have "b\<lparr>conv_0 := conv_0 b, conv_1 := conv_1 b, conv_s := Some c\<rparr> = b"
      using c(1) by simp
    then show ?thesis
      using c0 c1 c True
      by (simp add: SPADEResnetBlock_remove_spectral_norm_def remove_spectral_norm_plain
          bind_r_simps)
  next
    case False
    then show ?thesis
      using c0 c1
      by (simp add: SPADEResnetBlock_remove_spectral_norm_def remove_spectral_norm_plain
          bind_r_simps)
  qed
qed

lemma block_remove_wrapped:
  assumes l: "learned_shortcut b \<longrightarrow> (\<exists>c. conv_s b = Some c \<and> spectral c)"
    and n: "\<not> learned_shortcut b \<longrightarrow> conv_s b = None"
    and c0: "spectral (conv_0 b)" and c1: "spectral (conv_1 b)"
  shows "\<exists>b'. (\<forall>pol. SPADEResnetBlock_remove_spectral_norm pol b = Inr b')
          \<and> \<not> spectral (conv_0 b') \<and> \<not> spectral (conv_1 b')
          \<and> learned_shortcut b' = learned_shortcut b
          \<and> (learned_shortcut b' \<longrightarrow> (\<exists>c. conv_s b' = Some c \<and> \<not> spectral c))
          \<and> (\<forall>c. conv_s b' = Some c \<longrightarrow> \<not> spectral c)"
proof (cases "learned_shortcut b")
  case True
  with l obtain c where c: "conv_s b = Some c" "spectral c" by blast
  let ?b = "b\<lparr>conv_0 := (conv_0 b)\<lparr>spectral := False\<rparr>,
               conv_1 := (conv_1 b)\<lparr>spectral := False\<rparr>,
               conv_s := Some (c\<lparr>spectral := False\<rparr>)\<rparr>"
  have "\<forall>pol. SPADEResnetBlock_remove_spectral_norm pol b = Inr ?b"
    using c0 c1 c True
    by (simp add: SPADEResnetBlock_remove_spectral_norm_def remove_spectral_norm_wrapped
        bind_r_simps)
  then show ?thesis
    by (intro exI [of _ ?b]) simp
next
  case False
  let ?b = "b\<lparr>conv_0 := (conv_0 b)\<lparr>spectral := False\<rparr>,
               conv_1 := (conv_1 b)\<lparr>spectral := False\<rparr>\<rparr>"
  have "\<forall>pol. SPADEResnetBlock_remove_spectral_norm pol b = Inr ?b"
    using c0 c1 False
    by (simp add: SPADEResnetBlock_remove_spectral_norm_def remove_spectral_norm_wrapped
        bind_r_simps)
  then show ?thesis
    using False n by (intro exI [of _ ?b]) simp
qed

text \<open>
  Claim C8. \<open>remove_spectral_norm\<close> of a residual block is valid only while the
  spectral reparameterisation is applied. On a block constructed with \<^verbatim>\<open>spectral\<close> in
  \<open>norm_G\<close> it succeeds and leaves every owned convolution plain. On a block whose
  convolutions are plain, because \<open>norm_G\<close> has no \<^verbatim>\<open>spectral\<close> or because the
  operation has run once already, the outcome is in both cases the one the library
  gives for a plain convolution: the block unchanged under the no-op policy, the error
  \<open>InvalidState\<close> under the raising policy.
\<close>

theorem SPADEResnetBlock_remove_spectral_norm_guard:
  assumes "SPADEResnetBlock_init W fi fo opt n = (Inr b, n')"
  shows "(\<not> str_in ''spectral'' (norm_G opt) \<longrightarrow>
            SPADEResnetBlock_remove_spectral_norm NoOp b = Inr b
          \<and> SPADEResnetBlock_remove_spectral_norm Raise b = Inl InvalidState)
    \<and> (str_in ''spectral'' (norm_G opt) \<longrightarrow>
          (\<exists>b'. (\<forall>pol. SPADEResnetBlock_remove_spectral_norm pol b = Inr b')
             \<and> \<not> spectral (conv_0 b') \<and> \<not> spectral (conv_1 b')
             \<and> (\<forall>c. conv_s b' = Some c \<longrightarrow> \<not> spectral c)
             \<and> SPADEResnetBlock_remove_spectral_norm NoOp b' = Inr b'
             \<and> SPADEResnetBlock_remove_spectral_norm Raise b' = Inl InvalidState))"
proof -
  note f = block_init_fields [OF assms]
  have none: "\<not> learned_shortcut b \<longrightarrow> conv_s b = None"
    using f(3) f(8) by simp
  have some: "learned_shortcut b \<longrightarrow>
      (\<exists>c. conv_s b = Some c \<and> spectral c = str_in ''spectral'' (norm_G opt))"
    using f(3) f(9) by auto
  have plain: "SPADEResnetBlock_remove_spectral_norm NoOp b = Inr b
          \<and> SPADEResnetBlock_remove_spectral_norm Raise b = Inl InvalidState"
    if "\<not> str_in ''spectral'' (norm_G opt)"
    using block_remove_plain [of b] some f(4,5) that by simp
  have wrapped: "\<exists>b'. (\<forall>pol. SPADEResnetBlock_remove_spectral_norm pol b = Inr b')
             \<and> \<not> spectral (conv_0 b') \<and> \<not> spectral (conv_1 b')
             \<and> (\<forall>c. conv_s b' = Some c \<longrightarrow> \<not> spectral c)
             \<and> SPADEResnetBlock_remove_spectral_norm NoOp b' = Inr b'
             \<and> SPADEResnetBlock_remove_spectral_norm Raise b' = Inl InvalidState"
    if sp: "str_in ''spectral'' (norm_G opt)"
  proof -
    have "learned_shortcut b \<longrightarrow> (\<exists>c. conv_s b = Some c \<and> spectral c)"
      using some sp by simp
    from block_remove_wrapped [OF this none] f(4,5) sp
    obtain b' where b': "\<forall>pol. SPADEResnetBlock_remove_spectral_norm pol b = Inr b'"
      "\<not> spectral (conv_0 b')" "\<not> spectral (conv_1 b')"
      "learned_shortcut b' \<longrightarrow> (\<exists>c. conv_s b' = Some c \<and> \<not> spectral c)"
      "\<forall>c. conv_s b' = Some c \<longrightarrow> \<not> spectral c"
      by auto
    from block_remove_plain [OF b'(4) b'(2) b'(3)] b' show ?thesis
      by blast
  qed
  from plain wrapped show ?thesis by blast
qed

theorem SPADEResnetBlock_remove_spectral_norm_guard_witness:
  "(\<exists>b n' b'. SPADEResnetBlock_init example_weights 4 2 example_options 0 = (Inr b, n')
      \<and> SPADEResnetBlock_remove_spectral_norm NoOp b = Inr b'
      \<and> SPADEResnetBlock_remove_spectral_norm Raise b = Inr b'
      \<and> SPADEResnetBlock_remove_spectral_norm NoOp b' = Inr b'
      \<and> SPADEResnetBlock_remove_spectral_norm Raise b' = Inl InvalidState)
   \<and> (\<exists>b n'. SPADEResnetBlock_init example_weights 4 2
                    (example_options\<lparr>norm_G := ''spadeinstance3x3''\<rparr>) 0 = (Inr b, n')
      \<and> SPADEResnetBlock_remove_spectral_norm NoOp b = Inr b
      \<and> SPADEResnetBlock_remove_spectral_norm Raise b = Inl InvalidState)"
proof -
  let ?o = "example_options\<lparr>norm_G := ''spadeinstance3x3''\<rparr>"
  have p: "parse_base_norm (str_replace ''spectral'' [] (norm_G ?o)) = Inr InstanceNorm"
    by (simp add: example_options_def str_replace.simps parse_base_norm_def)
  have s1: "str_in ''spectral'' (norm_G example_options)"
    and s2: "\<not> str_in ''spectral'' (norm_G ?o)"
    by (simp_all add: example_options_def)
  obtain b1 where b1: "SPADEResnetBlock_init example_weights 4 2 example_options 0 = (Inr b1, 6)"
    using SPADEResnetBlock_init_succeeds [OF example_norm_G_parses, of example_weights 4 2 0]
    by auto
  obtain b2 where b2: "SPADEResnetBlock_init example_weights 4 2 ?o 0 = (Inr b2, 6)"
    using SPADEResnetBlock_init_succeeds [OF p, of example_weights 4 2 0] by auto
  from SPADEResnetBlock_remove_spectral_norm_guard [OF b1] s1
  obtain b' where "\<forall>pol. SPADEResnetBlock_remove_spectral_norm pol b1 = Inr b'"
    "SPADEResnetBlock_remove_spectral_norm NoOp b' = Inr b'"
    "SPADEResnetBlock_remove_spectral_norm Raise b' = Inl InvalidState"
    by blast
  moreover from SPADEResnetBlock_remove_spectral_norm_guard [OF b2] s2
  have "SPADEResnetBlock_remove_spectral_norm NoOp b2 = Inr b2
      \<and> SPADEResnetBlock_remove_spectral_norm Raise b2 = Inl InvalidState"
    by blast
  ultimately show ?thesis
    using b1 b2 by blast
qed

subsection \<open>What the generator constructor builds\<close>

lemma SPADEGenerator_init_Inr:
  assumes "SPADEGenerator_init W opt n = (Inr g, n')"
  obtains s_w s_h fc' h0 m0 m1 u0 u1 u2 u3 u4 fnc ci k1 k2 k3 k4 k5 k6 k7 k8 k9 k10 where
    "compute_latent_vector_size opt = Inr (s_w, s_h)" and
    "Conv2d W (semantic_nc opt) (16 * ngf opt) 3 1 True n = (Inr fc', k1)" and
    "SPADEResnetBlock_init W (16 * ngf opt) (16 * ngf opt) opt k1 = (Inr h0, k2)" and
    "SPADEResnetBlock_init W (16 * ngf opt) (16 * ngf opt) opt k2 = (Inr m0, k3)" and
    "SPADEResnetBlock_init W (16 * ngf opt) (16 * ngf opt) opt k3 = (Inr m1, k4)" and
    "SPADEResnetBlock_init W (16 * ngf opt) (8 * ngf opt) opt k4 = (Inr u0, k5)" and
    "SPADEResnetBlock_init W (8 * ngf opt) (4 * ngf opt) opt k5 = (Inr u1, k6)" and
    "SPADEResnetBlock_init W (4 * ngf opt) (2 * ngf opt) opt k6 = (Inr u2, k7)" and
    "SPADEResnetBlock_init W (2 * ngf opt) (1 * ngf opt) opt k7 = (Inr u3, k8)" and
    "(if num_upsampling_layers opt = ''most''
      then cbind (SPADEResnetBlock_init W (1 * ngf opt) (ngf opt div 2) opt)
             (\<lambda>u4. creturn (Some u4, ngf opt div 2))
      else creturn (None, ngf opt)) k8 = (Inr (u4, fnc), k9)" and
    "Conv2d W fnc 3 3 1 True k9 = (Inr ci, k10)" and
    "g = \<lparr>gen_opt = opt, sw = s_w, sh = s_h, fc = fc', head_0 = h0,
          G_middle_0 = m0, G_middle_1 = m1,
          up_0 = u0, up_1 = u1, up_2 = u2, up_3 = u3, up_4 = u4,
          conv_img = ci, up = Upsample 2\<rparr>" and
    "n' = k10"
  using assms
  unfolding SPADEGenerator_init_def Let_def cbind_Inr creturn_Inr clift_Inr
  by (auto simp: cbind_Inr creturn_Inr clift_Inr split: prod.splits)


lemma gen_init_fields:
  assumes "SPADEGenerator_init W opt n = (Inr g, n')"
  shows "gen_opt g = opt" "up g = Upsample 2"
    "compute_latent_vector_size opt = Inr (sw g, sh g)"
    "conv_ok (semantic_nc opt) (16 * ngf opt) 3 1 (fc g)"
    "block_ok (16 * ngf opt) (16 * ngf opt) (semantic_nc opt) (head_0 g)"
    "block_ok (16 * ngf opt) (16 * ngf opt) (semantic_nc opt) (G_middle_0 g)"
    "block_ok (16 * ngf opt) (16 * ngf opt) (semantic_nc opt) (G_middle_1 g)"
    "block_ok (16 * ngf opt) (8 * ngf opt) (semantic_nc opt) (up_0 g)"
    "block_ok (8 * ngf opt) (4 * ngf opt) (semantic_nc opt) (up_1 g)"
    "block_ok (4 * ngf opt) (2 * ngf opt) (semantic_nc opt) (up_2 g)"
    "block_ok (2 * ngf opt) (ngf opt) (semantic_nc opt) (up_3 g)"
    "num_upsampling_layers opt = ''most'' \<Longrightarrow>
       \<exists>b k k'. up_4 g = Some b
         \<and> SPADEResnetBlock_init W (ngf opt) (ngf opt div 2) opt k = (Inr b, k')
         \<and> conv_ok (ngf opt div 2) 3 3 1 (conv_img g)"
    "num_upsampling_layers opt \<noteq> ''most'' \<Longrightarrow>
       up_4 g = None \<and> conv_ok (ngf opt) 3 3 1 (conv_img g)"
proof -
  from assms obtain s_w s_h fc' h0 m0 m1 u0 u1 u2 u3 u4 fnc ci
      k1 k2 k3 k4 k5 k6 k7 k8 k9 k10 where
    cl: "compute_latent_vector_size opt = Inr (s_w, s_h)" and
    fc: "Conv2d W (semantic_nc opt) (16 * ngf opt) 3 1 True n = (Inr fc', k1)" and
    h0: "SPADEResnetBlock_init W (16 * ngf opt) (16 * ngf opt) opt k1 = (Inr h0, k2)" and
    m0: "SPADEResnetBlock_init W (16 * ngf opt) (16 * ngf opt) opt k2 = (Inr m0, k3)" and
    m1: "SPADEResnetBlock_init W (16 * ngf opt) (16 * ngf opt) opt k3 = (Inr m1, k4)" and
    u0: "SPADEResnetBlock_init W (16 * ngf opt) (8 * ngf opt) opt k4 = (Inr u0, k5)" and
    u1: "SPADEResnetBlock_init W (8 * ngf opt) (4 * ngf opt) opt k5 = (Inr u1, k6)" and
    u2: "SPADEResnetBlock_init W (4 * ngf opt) (2 * ngf opt) opt k6 = (Inr u2, k7)" and
    u3: "SPADEResnetBlock_init W (2 * ngf opt) (1 * ngf opt) opt k7 = (Inr u3, k8)" and
    u4: "(if num_upsampling_layers opt = ''most''
      then cbind (SPADEResnetBlock_init W (1 * ngf opt) (ngf opt div 2) opt)
             (\<lambda>u4. creturn (Some u4, ngf opt div 2))
      else creturn (None, ngf opt)) k8 = (Inr (u4, fnc), k9)" and
    ci: "Conv2d W fnc 3 3 1 True k9 = (Inr ci, k10)" and
    g: "g = \<lparr>gen_opt = opt, sw = s_w, sh = s_h, fc = fc', head_0 = h0,
          G_middle_0 = m0, G_middle_1 = m1,
          up_0 = u0, up_1 = u1, up_2 = u2, up_3 = u3, up_4 = u4,
          conv_img = ci, up = Upsample 2\<rparr>" and
    k10: "n' = k10"
    by (rule SPADEGenerator_init_Inr)
  show "gen_opt g = opt" "up g = Upsample 2"
    "compute_latent_vector_size opt = Inr (sw g, sh g)"
    by (simp_all add: g cl)
  show "conv_ok (semantic_nc opt) (16 * ngf opt) 3 1 (fc g)"
    using Conv2d_Inr [OF fc] by (simp add: g conv_ok_def)
  show "block_ok (16 * ngf opt) (16 * ngf opt) (semantic_nc opt) (head_0 g)"
    "block_ok (16 * ngf opt) (16 * ngf opt) (semantic_nc opt) (G_middle_0 g)"
    "block_ok (16 * ngf opt) (16 * ngf opt) (semantic_nc opt) (G_middle_1 g)"
    "block_ok (16 * ngf opt) (8 * ngf opt) (semantic_nc opt) (up_0 g)"
    "block_ok (8 * ngf opt) (4 * ngf opt) (semantic_nc opt) (up_1 g)"
    "block_ok (4 * ngf opt) (2 * ngf opt) (semantic_nc opt) (up_2 g)"
    using block_init_ok [OF h0] block_init_ok [OF m0] block_init_ok [OF m1]
      block_init_ok [OF u0] block_init_ok [OF u1] block_init_ok [OF u2]
    by (simp_all add: g)
  show "block_ok (2 * ngf opt) (ngf opt) (semantic_nc opt) (up_3 g)"
    using block_init_ok [OF u3] by (simp add: g)
  show "\<exists>b k k'. up_4 g = Some b
         \<and> SPADEResnetBlock_init W (ngf opt) (ngf opt div 2) opt k = (Inr b, k')
         \<and> conv_ok (ngf opt div 2) 3 3 1 (conv_img g)"
    if "num_upsampling_layers opt = ''most''"
  proof -
    from u4 that obtain b where
      b: "SPADEResnetBlock_init W (ngf opt) (ngf opt div 2) opt k8 = (Inr b, k9)"
        "u4 = Some b" "fnc = ngf opt div 2"
      by (auto simp: cbind_Inr creturn_Inr)
    then show ?thesis
      using Conv2d_Inr [OF ci] by (auto simp: g conv_ok_def)
  qed
  show "up_4 g = None \<and> conv_ok (ngf opt) 3 3 1 (conv_img g)"
    if "num_upsampling_layers opt \<noteq> ''most''"
    using u4 that Conv2d_Inr [OF ci] by (auto simp: g conv_ok_def creturn_Inr)
qed




lemma bind_r_InrI: "m = Inr x \<Longrightarrow> f x = r \<Longrightarrow> bind_r m f = r"
  by (simp add: bind_r_def)

lemma cbind_InrI: "m n = (Inr x, k) \<Longrightarrow> f x k = r \<Longrightarrow> cbind m f n = r"
  by (simp add: cbind_def)

lemma SPADEResnetBlock_init_total:
  assumes "parse_base_norm (str_replace ''spectral'' [] (norm_G opt)) = Inr k"
  shows "\<exists>b n'. SPADEResnetBlock_init W fi fo opt n = (Inr b, n')"
  using SPADEResnetBlock_init_succeeds [OF assms] by blast

lemma SPADEGenerator_init_succeeds:
  assumes st: "num_up_layers (num_upsampling_layers opt) = Inr stages"
    and ar: "aspect_ratio opt \<noteq> 0"
    and pn: "parse_base_norm (str_replace ''spectral'' [] (norm_G opt)) = Inr k"
  shows "\<exists>g n'. SPADEGenerator_init W opt n = (Inr g, n')"
proof -
  let ?nf = "ngf opt"
  let ?s_w = "crop_size opt div 2 ^ stages"
  let ?s_h = "py_round (of_int ?s_w / aspect_ratio opt)"
  have cl: "clift (compute_latent_vector_size opt) n = (Inr (?s_w, ?s_h), n)"
    using st ar by (simp add: clift_def compute_latent_vector_size_def bind_r_simps Let_def)
  obtain fc' where fc: "Conv2d W (semantic_nc opt) (16 * ?nf) 3 1 True n = (Inr fc', Suc n)"
    by (simp add: Conv2d_def)
  note tot = SPADEResnetBlock_init_total [OF pn]
  from tot obtain h0 k2 where
    h0: "SPADEResnetBlock_init W (16 * ?nf) (16 * ?nf) opt (Suc n) = (Inr h0, k2)" by blast
  from tot obtain m0 k3 where
    m0: "SPADEResnetBlock_init W (16 * ?nf) (16 * ?nf) opt k2 = (Inr m0, k3)" by blast
  from tot obtain m1 k4 where
    m1: "SPADEResnetBlock_init W (16 * ?nf) (16 * ?nf) opt k3 = (Inr m1, k4)" by blast
  from tot obtain u0 k5 where
    u0: "SPADEResnetBlock_init W (16 * ?nf) (8 * ?nf) opt k4 = (Inr u0, k5)" by blast
  from tot obtain u1 k6 where
    u1: "SPADEResnetBlock_init W (8 * ?nf) (4 * ?nf) opt k5 = (Inr u1, k6)" by blast
  from tot obtain u2 k7 where
    u2: "SPADEResnetBlock_init W (4 * ?nf) (2 * ?nf) opt k6 = (Inr u2, k7)" by blast
  from tot obtain u3 k8 where
    u3: "SPADEResnetBlock_init W (2 * ?nf) (1 * ?nf) opt k7 = (Inr u3, k8)" by blast
  have "\<exists>u4 fnc k9. (if num_upsampling_layers opt = ''most''
      then cbind (SPADEResnetBlock_init W (1 * ?nf) (?nf div 2) opt)
             (\<lambda>u4. creturn (Some u4, ?nf div 2))
      else creturn (None, ?nf)) k8 = (Inr (u4, fnc), k9)"
  proof (cases "num_upsampling_layers opt = ''most''")
    case True
    from tot obtain b k9 where
      "SPADEResnetBlock_init W (1 * ?nf) (?nf div 2) opt k8 = (Inr b, k9)" by blast
    with True show ?thesis by (simp add: cbind_def creturn_def)
  next
    case False
    then show ?thesis by (simp add: creturn_def)
  qed
  then obtain u4 fnc k9 where
    u4: "(if num_upsampling_layers opt = ''most''
      then cbind (SPADEResnetBlock_init W (1 * ?nf) (?nf div 2) opt)
             (\<lambda>u4. creturn (Some u4, ?nf div 2))
      else creturn (None, ?nf)) k8 = (Inr (u4, fnc), k9)" by blast
  obtain ci where ci: "Conv2d W fnc 3 3 1 True k9 = (Inr ci, Suc k9)"
    by (simp add: Conv2d_def)
  have "SPADEGenerator_init W opt n =
      (Inr \<lparr>gen_opt = opt, sw = ?s_w, sh = ?s_h, fc = fc', head_0 = h0,
          G_middle_0 = m0, G_middle_1 = m1,
          up_0 = u0, up_1 = u1, up_2 = u2, up_3 = u3, up_4 = u4,
          conv_img = ci, up = Upsample 2\<rparr>, Suc k9)"
    unfolding SPADEGenerator_init_def Let_def
    apply (rule cbind_InrI, rule cl)
    apply (simp only: prod.case)
    apply (rule cbind_InrI, rule fc)
    apply (rule cbind_InrI, rule h0)
    apply (rule cbind_InrI, rule m0)
    apply (rule cbind_InrI, rule m1)
    apply (rule cbind_InrI, rule u0)
    apply (rule cbind_InrI, rule u1)
    apply (rule cbind_InrI, rule u2)
    apply (rule cbind_InrI, rule u3)
    apply (rule cbind_InrI, rule u4)
    apply (simp only: prod.case)
    apply (rule cbind_InrI, rule ci)
    apply (simp only: creturn_def)
    done
  then show ?thesis by blast
qed


subsection \<open>Output of the generator\<close>



subsection \<open>Stages that depend on the upsampling mode\<close>







subsection \<open>Removing the spectral reparameterisation from the generator\<close>

lemma block_init_wrapped:
  assumes "SPADEResnetBlock_init W fi fo opt n = (Inr b, n')"
    and "str_in ''spectral'' (norm_G opt)"
  shows "block_wrapped b"
  using block_init_fields(3,4,5,8,9) [OF assms(1)] assms(2)
  by (auto simp: block_wrapped_def)

lemma block_remove_of_wrapped:
  assumes "block_wrapped b"
  shows "\<exists>b'. (\<forall>pol. SPADEResnetBlock_remove_spectral_norm pol b = Inr b') \<and> block_plain b'"
proof -
  from assms have "learned_shortcut b \<longrightarrow> (\<exists>c. conv_s b = Some c \<and> spectral c)"
    "\<not> learned_shortcut b \<longrightarrow> conv_s b = None" "spectral (conv_0 b)" "spectral (conv_1 b)"
    by (simp_all add: block_wrapped_def)
  from block_remove_wrapped [OF this] show ?thesis
    unfolding block_plain_def by blast
qed

lemma Conv2d_forward_remove:
  assumes "remove_spectral_norm pol c = Inr c'"
  shows "Conv2d_forward c' = Conv2d_forward c"
proof -
  from assms have "c' = c \<or> c' = c\<lparr>spectral := False\<rparr>"
    by (auto simp: remove_spectral_norm_def split: if_splits plain_policy.splits)
  then show ?thesis
    by (auto simp: Conv2d_forward_def fun_eq_iff split: list.splits)
qed

lemma block_remove_forward:
  assumes "SPADEResnetBlock_remove_spectral_norm pol b = Inr b'"
  shows "SPADEResnetBlock_forward b' = SPADEResnetBlock_forward b"
proof -
  from assms obtain c0 c1 where
    c0: "remove_spectral_norm pol (conv_0 b) = Inr c0" and
    c1: "remove_spectral_norm pol (conv_1 b) = Inr c1" and
    r: "(if learned_shortcut b
         then (case conv_s b of
                 None \<Rightarrow> Inl AttributeError
               | Some c \<Rightarrow>
                   bind_r (remove_spectral_norm pol c) (\<lambda>cs.
                   Inr (b\<lparr>conv_0 := c0, conv_1 := c1, conv_s := Some cs\<rparr>)))
         else Inr (b\<lparr>conv_0 := c0, conv_1 := c1\<rparr>)) = Inr b'"
    unfolding SPADEResnetBlock_remove_spectral_norm_def bind_r_Inr by blast
  note f0 = Conv2d_forward_remove [OF c0] and f1 = Conv2d_forward_remove [OF c1]
  show ?thesis
  proof (cases "learned_shortcut b")
    case False
    with r have b': "b' = b\<lparr>conv_0 := c0, conv_1 := c1\<rparr>" by simp
    show ?thesis
      by (simp add: fun_eq_iff b' SPADEResnetBlock_forward_def SPADEResnetBlock_shortcut_def
          SPADEResnetBlock_actvn_def f0 f1)
  next
    case True
    with r obtain c cs where c: "conv_s b = Some c"
      "remove_spectral_norm pol c = Inr cs"
      "b' = b\<lparr>conv_0 := c0, conv_1 := c1, conv_s := Some cs\<rparr>"
      by (auto simp: bind_r_Inr split: option.splits)
    note fs = Conv2d_forward_remove [OF c(2)]
    show ?thesis
      by (simp add: fun_eq_iff c(1,3) SPADEResnetBlock_forward_def
          SPADEResnetBlock_shortcut_def SPADEResnetBlock_actvn_def f0 f1 fs split: option.splits)
  qed
qed

lemma gen_remove_Inr:
  assumes "SPADEGenerator_remove_spectral_norm pol g = Inr g'"
  obtains h0 m0 m1 u0 u1 u2 u3 where
    "SPADEResnetBlock_remove_spectral_norm pol (head_0 g) = Inr h0"
    "SPADEResnetBlock_remove_spectral_norm pol (G_middle_0 g) = Inr m0"
    "SPADEResnetBlock_remove_spectral_norm pol (G_middle_1 g) = Inr m1"
    "SPADEResnetBlock_remove_spectral_norm pol (up_0 g) = Inr u0"
    "SPADEResnetBlock_remove_spectral_norm pol (up_1 g) = Inr u1"
    "SPADEResnetBlock_remove_spectral_norm pol (up_2 g) = Inr u2"
    "SPADEResnetBlock_remove_spectral_norm pol (up_3 g) = Inr u3"
    "(if num_upsampling_layers (gen_opt g) = ''most''
      then (case up_4 g of
              None \<Rightarrow> Inl AttributeError
            | Some b \<Rightarrow>
                bind_r (SPADEResnetBlock_remove_spectral_norm pol b) (\<lambda>u4.
                Inr (g\<lparr>head_0 := h0, G_middle_0 := m0, G_middle_1 := m1,
                        up_0 := u0, up_1 := u1, up_2 := u2, up_3 := u3,
                        up_4 := Some u4\<rparr>)))
      else Inr (g\<lparr>head_0 := h0, G_middle_0 := m0, G_middle_1 := m1,
                  up_0 := u0, up_1 := u1, up_2 := u2, up_3 := u3\<rparr>)) = Inr g'"
  using assms
  unfolding SPADEGenerator_remove_spectral_norm_def Let_def bind_r_Inr
  by auto

lemma gen_remove_forward:
  assumes "SPADEGenerator_remove_spectral_norm pol g = Inr g'"
  shows "SPADEGenerator_forward g' = SPADEGenerator_forward g"
proof -
  from assms obtain h0 m0 m1 u0 u1 u2 u3 where
    h0: "SPADEResnetBlock_remove_spectral_norm pol (head_0 g) = Inr h0" and
    m0: "SPADEResnetBlock_remove_spectral_norm pol (G_middle_0 g) = Inr m0" and
    m1: "SPADEResnetBlock_remove_spectral_norm pol (G_middle_1 g) = Inr m1" and
    u0: "SPADEResnetBlock_remove_spectral_norm pol (up_0 g) = Inr u0" and
    u1: "SPADEResnetBlock_remove_spectral_norm pol (up_1 g) = Inr u1" and
    u2: "SPADEResnetBlock_remove_spectral_norm pol (up_2 g) = Inr u2" and
    u3: "SPADEResnetBlock_remove_spectral_norm pol (up_3 g) = Inr u3" and
    r: "(if num_upsampling_layers (gen_opt g) = ''most''
      then (case up_4 g of
              None \<Rightarrow> Inl AttributeError
            | Some b \<Rightarrow>
                bind_r (SPADEResnetBlock_remove_spectral_norm pol b) (\<lambda>u4.
                Inr (g\<lparr>head_0 := h0, G_middle_0 := m0, G_middle_1 := m1,
                        up_0 := u0, up_1 := u1, up_2 := u2, up_3 := u3,
                        up_4 := Some u4\<rparr>)))
      else Inr (g\<lparr>head_0 := h0, G_middle_0 := m0, G_middle_1 := m1,
                  up_0 := u0, up_1 := u1, up_2 := u2, up_3 := u3\<rparr>)) = Inr g'"
    by (rule gen_remove_Inr)
  note fw = block_remove_forward [OF h0] block_remove_forward [OF m0]
    block_remove_forward [OF m1] block_remove_forward [OF u0] block_remove_forward [OF u1]
    block_remove_forward [OF u2] block_remove_forward [OF u3]
  show ?thesis
  proof (cases "num_upsampling_layers (gen_opt g) = ''most''")
    case False
    with r have g': "g' = g\<lparr>head_0 := h0, G_middle_0 := m0, G_middle_1 := m1,
                  up_0 := u0, up_1 := u1, up_2 := u2, up_3 := u3\<rparr>" by simp
    show ?thesis
      unfolding fun_eq_iff SPADEGenerator_forward_def g'
      by (simp add: fw False cong: if_cong)
  next
    case True
    with r obtain b u4 where b: "up_4 g = Some b"
      "SPADEResnetBlock_remove_spectral_norm pol b = Inr u4"
      "g' = g\<lparr>head_0 := h0, G_middle_0 := m0, G_middle_1 := m1,
                        up_0 := u0, up_1 := u1, up_2 := u2, up_3 := u3,
                        up_4 := Some u4\<rparr>"
      by (auto simp: bind_r_Inr split: option.splits)
    note f4 = block_remove_forward [OF b(2)]
    show ?thesis
      unfolding fun_eq_iff SPADEGenerator_forward_def b(3)
      by (simp add: fw f4 b(1) True cong: if_cong)
  qed
qed

lemma gen_init_wrapped:
  assumes init: "SPADEGenerator_init W opt n = (Inr g, n')"
    and sp: "str_in ''spectral'' (norm_G opt)"
  shows "block_wrapped (head_0 g)" "block_wrapped (G_middle_0 g)"
    "block_wrapped (G_middle_1 g)" "block_wrapped (up_0 g)" "block_wrapped (up_1 g)"
    "block_wrapped (up_2 g)" "block_wrapped (up_3 g)"
    "\<forall>b. up_4 g = Some b \<longrightarrow> block_wrapped b"
proof -
  from init obtain s_w s_h fc' h0 m0 m1 u0 u1 u2 u3 u4 fnc ci
      k1 k2 k3 k4 k5 k6 k7 k8 k9 k10 where
    cl: "compute_latent_vector_size opt = Inr (s_w, s_h)" and
    fc: "Conv2d W (semantic_nc opt) (16 * ngf opt) 3 1 True n = (Inr fc', k1)" and
    h0: "SPADEResnetBlock_init W (16 * ngf opt) (16 * ngf opt) opt k1 = (Inr h0, k2)" and
    m0: "SPADEResnetBlock_init W (16 * ngf opt) (16 * ngf opt) opt k2 = (Inr m0, k3)" and
    m1: "SPADEResnetBlock_init W (16 * ngf opt) (16 * ngf opt) opt k3 = (Inr m1, k4)" and
    u0: "SPADEResnetBlock_init W (16 * ngf opt) (8 * ngf opt) opt k4 = (Inr u0, k5)" and
    u1: "SPADEResnetBlock_init W (8 * ngf opt) (4 * ngf opt) opt k5 = (Inr u1, k6)" and
    u2: "SPADEResnetBlock_init W (4 * ngf opt) (2 * ngf opt) opt k6 = (Inr u2, k7)" and
    u3: "SPADEResnetBlock_init W (2 * ngf opt) (1 * ngf opt) opt k7 = (Inr u3, k8)" and
    u4: "(if num_upsampling_layers opt = ''most''
      then cbind (SPADEResnetBlock_init W (1 * ngf opt) (ngf opt div 2) opt)
             (\<lambda>u4. creturn (Some u4, ngf opt div 2))
      else creturn (None, ngf opt)) k8 = (Inr (u4, fnc), k9)" and
    ci: "Conv2d W fnc 3 3 1 True k9 = (Inr ci, k10)" and
    g: "g = \<lparr>gen_opt = opt, sw = s_w, sh = s_h, fc = fc', head_0 = h0,
          G_middle_0 = m0, G_middle_1 = m1,
          up_0 = u0, up_1 = u1, up_2 = u2, up_3 = u3, up_4 = u4,
          conv_img = ci, up = Upsample 2\<rparr>" and
    k10: "n' = k10"
    by (rule SPADEGenerator_init_Inr)
  show "block_wrapped (head_0 g)" "block_wrapped (G_middle_0 g)"
    "block_wrapped (G_middle_1 g)" "block_wrapped (up_0 g)" "block_wrapped (up_1 g)"
    "block_wrapped (up_2 g)" "block_wrapped (up_3 g)"
    using block_init_wrapped [OF h0 sp] block_init_wrapped [OF m0 sp]
      block_init_wrapped [OF m1 sp] block_init_wrapped [OF u0 sp]
      block_init_wrapped [OF u1 sp] block_init_wrapped [OF u2 sp]
      block_init_wrapped [OF u3 sp]
    by (simp_all add: g)
  show "\<forall>b. up_4 g = Some b \<longrightarrow> block_wrapped b"
  proof (intro allI impI)
    fix b assume "up_4 g = Some b"
    then have b: "u4 = Some b" by (simp add: g)
    with u4 obtain k where
      "SPADEResnetBlock_init W (1 * ngf opt) (ngf opt div 2) opt k8 = (Inr b, k)"
      by (auto simp: cbind_Inr creturn_Inr split: if_splits)
    from block_init_wrapped [OF this sp] show "block_wrapped b" .
  qed
qed

text \<open>
  Claim C9. On a generator constructed with a spectral mode, \<open>remove_spectral_norm\<close>
  succeeds and reaches every owned residual block, the fifth upsampling block included
  exactly in the mode \<^verbatim>\<open>most\<close>: afterwards no owned convolution carries the
  reparameterisation. Removal keeps the weight each convolution realises, so \<open>forward\<close>
  on the same input gives the same output as before; over the real numbers the outputs
  are equal, and so as close as one wishes.
\<close>

theorem SPADEGenerator_remove_spectral_norm_keeps_forward:
  assumes init: "SPADEGenerator_init W opt n = (Inr g, n')"
    and sp: "str_in ''spectral'' (norm_G opt)"
  shows "\<exists>g'. (\<forall>pol. SPADEGenerator_remove_spectral_norm pol g = Inr g')
     \<and> block_plain (head_0 g') \<and> block_plain (G_middle_0 g') \<and> block_plain (G_middle_1 g')
     \<and> block_plain (up_0 g') \<and> block_plain (up_1 g') \<and> block_plain (up_2 g')
     \<and> block_plain (up_3 g')
     \<and> (num_upsampling_layers opt = ''most'' \<longrightarrow> (\<exists>b. up_4 g' = Some b \<and> block_plain b))
     \<and> (num_upsampling_layers opt \<noteq> ''most'' \<longrightarrow> up_4 g' = None)
     \<and> (\<forall>seg. SPADEGenerator_forward g' seg = SPADEGenerator_forward g seg)"
proof -
  note f = gen_init_fields [OF init] and w = gen_init_wrapped [OF init sp]
  from block_remove_of_wrapped [OF w(1)] obtain h0 where
    h0: "\<forall>pol. SPADEResnetBlock_remove_spectral_norm pol (head_0 g) = Inr h0"
      "block_plain h0" by blast
  from block_remove_of_wrapped [OF w(2)] obtain m0 where
    m0: "\<forall>pol. SPADEResnetBlock_remove_spectral_norm pol (G_middle_0 g) = Inr m0"
      "block_plain m0" by blast
  from block_remove_of_wrapped [OF w(3)] obtain m1 where
    m1: "\<forall>pol. SPADEResnetBlock_remove_spectral_norm pol (G_middle_1 g) = Inr m1"
      "block_plain m1" by blast
  from block_remove_of_wrapped [OF w(4)] obtain u0 where
    u0: "\<forall>pol. SPADEResnetBlock_remove_spectral_norm pol (up_0 g) = Inr u0"
      "block_plain u0" by blast
  from block_remove_of_wrapped [OF w(5)] obtain u1 where
    u1: "\<forall>pol. SPADEResnetBlock_remove_spectral_norm pol (up_1 g) = Inr u1"
      "block_plain u1" by blast
  from block_remove_of_wrapped [OF w(6)] obtain u2 where
    u2: "\<forall>pol. SPADEResnetBlock_remove_spectral_norm pol (up_2 g) = Inr u2"
      "block_plain u2" by blast
  from block_remove_of_wrapped [OF w(7)] obtain u3 where
    u3: "\<forall>pol. SPADEResnetBlock_remove_spectral_norm pol (up_3 g) = Inr u3"
      "block_plain u3" by blast
  let ?g = "g\<lparr>head_0 := h0, G_middle_0 := m0, G_middle_1 := m1,
              up_0 := u0, up_1 := u1, up_2 := u2, up_3 := u3\<rparr>"
  have "\<exists>g'. (\<forall>pol. SPADEGenerator_remove_spectral_norm pol g = Inr g')
     \<and> head_0 g' = h0 \<and> G_middle_0 g' = m0 \<and> G_middle_1 g' = m1
     \<and> up_0 g' = u0 \<and> up_1 g' = u1 \<and> up_2 g' = u2 \<and> up_3 g' = u3
     \<and> (num_upsampling_layers opt = ''most'' \<longrightarrow> (\<exists>b. up_4 g' = Some b \<and> block_plain b))
     \<and> (num_upsampling_layers opt \<noteq> ''most'' \<longrightarrow> up_4 g' = None)"
  proof (cases "num_upsampling_layers opt = ''most''")
    case False
    have "SPADEGenerator_remove_spectral_norm pol g = Inr ?g" for pol
      unfolding SPADEGenerator_remove_spectral_norm_def Let_def f(1)
      apply (rule bind_r_InrI, rule h0(1) [rule_format])
      apply (rule bind_r_InrI, rule m0(1) [rule_format])
      apply (rule bind_r_InrI, rule m1(1) [rule_format])
      apply (rule bind_r_InrI, rule u0(1) [rule_format])
      apply (rule bind_r_InrI, rule u1(1) [rule_format])
      apply (rule bind_r_InrI, rule u2(1) [rule_format])
      apply (rule bind_r_InrI, rule u3(1) [rule_format])
      apply (simp only: False if_False)
      done
    then show ?thesis
      using False f(13) [OF False] by (intro exI [of _ ?g]) simp
  next
    case True
    from f(12) [OF True] obtain b where b: "up_4 g = Some b" by blast
    with w(8) have "block_wrapped b" by blast
    from block_remove_of_wrapped [OF this] obtain u4 where
      u4: "\<forall>pol. SPADEResnetBlock_remove_spectral_norm pol b = Inr u4"
        "block_plain u4" by blast
    have "SPADEGenerator_remove_spectral_norm pol g = Inr (?g\<lparr>up_4 := Some u4\<rparr>)" for pol
      unfolding SPADEGenerator_remove_spectral_norm_def Let_def f(1)
      apply (rule bind_r_InrI, rule h0(1) [rule_format])
      apply (rule bind_r_InrI, rule m0(1) [rule_format])
      apply (rule bind_r_InrI, rule m1(1) [rule_format])
      apply (rule bind_r_InrI, rule u0(1) [rule_format])
      apply (rule bind_r_InrI, rule u1(1) [rule_format])
      apply (rule bind_r_InrI, rule u2(1) [rule_format])
      apply (rule bind_r_InrI, rule u3(1) [rule_format])
      apply (simp only: True if_True b option.case simp_thms)
      apply (rule bind_r_InrI, rule u4(1) [rule_format])
      apply (rule refl)
      done
    then show ?thesis
      using True u4(2) by (intro exI [of _ "?g\<lparr>up_4 := Some u4\<rparr>"]) simp
  qed
  then obtain g' where g': "\<forall>pol. SPADEGenerator_remove_spectral_norm pol g = Inr g'"
    "head_0 g' = h0" "G_middle_0 g' = m0" "G_middle_1 g' = m1"
    "up_0 g' = u0" "up_1 g' = u1" "up_2 g' = u2" "up_3 g' = u3"
    "num_upsampling_layers opt = ''most'' \<longrightarrow> (\<exists>b. up_4 g' = Some b \<and> block_plain b)"
    "num_upsampling_layers opt \<noteq> ''most'' \<longrightarrow> up_4 g' = None"
    by blast
  have "SPADEGenerator_forward g' = SPADEGenerator_forward g"
    using gen_remove_forward [OF g'(1) [rule_format, of Raise]] .
  then have fw: "\<forall>seg. SPADEGenerator_forward g' seg = SPADEGenerator_forward g seg"
    by simp
  show ?thesis
    using g' fw h0(2) m0(2) m1(2) u0(2) u1(2) u2(2) u3(2)
    by (intro exI [of _ g']) simp
qed

theorem SPADEGenerator_remove_spectral_norm_keeps_forward_witness:
  "\<exists>g n' g' b. SPADEGenerator_init example_weights
       (example_options\<lparr>num_upsampling_layers := ''most''\<rparr>) 0 = (Inr g, n')
     \<and> SPADEGenerator_remove_spectral_norm Raise g = Inr g'
     \<and> up_4 g' = Some b \<and> block_plain b \<and> block_plain (head_0 g')
     \<and> SPADEGenerator_forward g' \<lparr>shape = [2, 35, 256, 256], elems = (\<lambda>i. 0)\<rparr>
         = SPADEGenerator_forward g \<lparr>shape = [2, 35, 256, 256], elems = (\<lambda>i. 0)\<rparr>"
proof -
  let ?o = "example_options\<lparr>num_upsampling_layers := ''most''\<rparr>"
  have v: "num_up_layers (num_upsampling_layers ?o) = Inr 7" "aspect_ratio ?o \<noteq> 0"
    "parse_base_norm (str_replace ''spectral'' [] (norm_G ?o)) = Inr InstanceNorm"
    using example_norm_G_parses by (simp_all add: example_options_def num_up_layers_def)
  have sp: "str_in ''spectral'' (norm_G ?o)" and m: "num_upsampling_layers ?o = ''most''"
    by (simp_all add: example_options_def)
  from SPADEGenerator_init_succeeds [OF v]
  obtain g n' where g: "SPADEGenerator_init example_weights ?o 0 = (Inr g, n')" by blast
  from SPADEGenerator_remove_spectral_norm_keeps_forward [OF g sp] m g
  show ?thesis by blast
qed

end
